theory Spec2Isabelle
  imports Main
begin

section \<open>The data store of forte: \<^verbatim>\<open>src/forte/data/data_store.py\<close>\<close>

text \<open>
  The class \<^verbatim>\<open>DataStore\<close> keeps NLP entries over one text. This theory embeds the
  class as the source has it: its four instance fields as a record, every method as a
  function from the store (and the arguments) to either the exception raised or the
  value returned together with the store after the call.
\<close>

subsection \<open>Values, entries and exceptions\<close>

text \<open>
  An entry is a Python list whose cells hold a string (the type), an integer (the tid,
  an offset) or \<^verbatim>\<open>None\<close> (an attribute not set yet).
\<close>

datatype pyval = PNone | PInt int | PStr string

type_synonym entry = "pyval list"

text \<open>
  The two exceptions the class can raise: \<^verbatim>\<open>KeyError\<close> from a dictionary lookup
  (carrying the missing key) and the \<^verbatim>\<open>NotImplementedError\<close> the method bodies raise.
\<close>

datatype error = KeyError string | NotImplementedError

subsection \<open>The instance fields\<close>

text \<open>
  \<^verbatim>\<open>self._text\<close>, \<^verbatim>\<open>self._type_attributes\<close> (type name to attribute names),
  \<^verbatim>\<open>self.elements\<close> (one sorted list of entries per type id) and
  \<^verbatim>\<open>self.entry_dict\<close> (tid to entry).
\<close>

record store =
  ds_text :: string
  type_attributes :: "string \<rightharpoonup> string list"
  elements :: "entry list list"
  entry_dict :: "int \<rightharpoonup> entry"

text \<open>
  \<^verbatim>\<open>__init__\<close>: after the call to the base class constructor (which is not part of
  this file) the four fields are assigned, in this order, the empty string, the empty
  dictionary, the empty list and the empty dictionary.
\<close>

definition DataStore_init :: store where
  "DataStore_init =
     \<lparr>ds_text = [], type_attributes = Map.empty, elements = [], entry_dict = Map.empty\<rparr>"

subsection \<open>The record factory\<close>

text \<open>
  \<^verbatim>\<open>
  def _new_entry(self, type: str, begin, end):
      tid: int = uuid.uuid4().int
      entry = [type, tid, begin, end]
      entry += len(self._type_attributes[type]) * [None]
      return entry
  \<close>
  The integer that \<^verbatim>\<open>uuid.uuid4().int\<close> draws is the argument \<open>uuid\<close> of the model:
  it comes from the operating system's random source, not from the store. The lookup
  \<^verbatim>\<open>self._type_attributes[type]\<close> raises \<^verbatim>\<open>KeyError\<close> for a missing key. The
  parameters \<^verbatim>\<open>begin\<close> and \<^verbatim>\<open>end\<close> carry no annotation and are stored as given.
\<close>

definition new_entry ::
  "store \<Rightarrow> string \<Rightarrow> pyval \<Rightarrow> pyval \<Rightarrow> int \<Rightarrow> error + (entry \<times> store)" where
  "new_entry self ty begin_v end_v uuid =
     (let tid = uuid;
          entry = [PStr ty, PInt tid, begin_v, end_v]
      in case type_attributes self ty of
           None \<Rightarrow> Inl (KeyError ty)
         | Some attrs \<Rightarrow> Inr (entry @ replicate (length attrs) PNone, self))"

subsection \<open>The methods whose body is not written\<close>

text \<open>
  Every other method of the class has a documentation string, a comment that describes
  what the body is to do, and the single statement \<^verbatim>\<open>raise NotImplementedError\<close>.
  A call raises before it reads an argument or a field, whatever the store holds.
  \<^verbatim>\<open>get\<close> has no \<^verbatim>\<open>yield\<close>, so it is an ordinary function and raises when called,
  not when the result is iterated.
\<close>

definition generate_attr_index :: "store \<Rightarrow> error + (unit \<times> store)" where
  "generate_attr_index self = Inl NotImplementedError"

definition add_annotation_raw :: "store \<Rightarrow> int \<Rightarrow> int \<Rightarrow> int \<Rightarrow> error + (int \<times> store)" where
  "add_annotation_raw self type_id begin_i end_i = Inl NotImplementedError"

definition set_attr :: "store \<Rightarrow> int \<Rightarrow> string \<Rightarrow> pyval \<Rightarrow> error + (unit \<times> store)" where
  "set_attr self tid attr_name attr_value = Inl NotImplementedError"

definition get_attr :: "store \<Rightarrow> int \<Rightarrow> string \<Rightarrow> error + (pyval \<times> store)" where
  "get_attr self tid attr_name = Inl NotImplementedError"

definition delete_entry :: "store \<Rightarrow> int \<Rightarrow> error + (unit \<times> store)" where
  "delete_entry self tid = Inl NotImplementedError"

definition get_entry :: "store \<Rightarrow> int \<Rightarrow> error + (entry \<times> store)" where
  "get_entry self tid = Inl NotImplementedError"

text \<open>The keyword arguments of \<^verbatim>\<open>get\<close> are a list of name and value pairs.\<close>

definition get ::
  "store \<Rightarrow> string \<Rightarrow> (string \<times> pyval) list \<Rightarrow> error + (entry list \<times> store)" where
  "get self entry_type kwargs = Inl NotImplementedError"

definition next_entry :: "store \<Rightarrow> int \<Rightarrow> error + (entry \<times> store)" where
  "next_entry self tid = Inl NotImplementedError"

definition prev_entry :: "store \<Rightarrow> int \<Rightarrow> error + (entry \<times> store)" where
  "prev_entry self tid = Inl NotImplementedError"

subsection \<open>Sequences of calls\<close>

text \<open>
  The store a caller holds after a call: the one the method returns, or, when the method
  raised, the store as it was (no method assigns to a field before it raises).
\<close>

definition store_after :: "store \<Rightarrow> error + ('a \<times> store) \<Rightarrow> store" where
  "store_after self r = (case r of Inl err \<Rightarrow> self | Inr (v, self') \<Rightarrow> self')"

text \<open>One call of a method of the class, with its arguments.\<close>

datatype call =
    NewEntry string pyval pyval int
  | GenerateAttrIndex
  | AddAnnotationRaw int int int
  | SetAttr int string pyval
  | GetAttr int string
  | DeleteEntry int
  | GetEntry int
  | Get string "(string \<times> pyval) list"
  | NextEntry int
  | PrevEntry int

fun call_method :: "store \<Rightarrow> call \<Rightarrow> store" where
  "call_method self (NewEntry ty b e uuid) = store_after self (new_entry self ty b e uuid)"
| "call_method self GenerateAttrIndex = store_after self (generate_attr_index self)"
| "call_method self (AddAnnotationRaw type_id b e) =
     store_after self (add_annotation_raw self type_id b e)"
| "call_method self (SetAttr tid attr_name v) = store_after self (set_attr self tid attr_name v)"
| "call_method self (GetAttr tid attr_name) = store_after self (get_attr self tid attr_name)"
| "call_method self (DeleteEntry tid) = store_after self (delete_entry self tid)"
| "call_method self (GetEntry tid) = store_after self (get_entry self tid)"
| "call_method self (Get entry_type kwargs) = store_after self (get self entry_type kwargs)"
| "call_method self (NextEntry tid) = store_after self (next_entry self tid)"
| "call_method self (PrevEntry tid) = store_after self (prev_entry self tid)"

subsection \<open>Two stores with a registered type\<close>

text \<open>
  A store whose schema registry holds the type of the class documentation's example,
  with two attributes.
\<close>

definition sentence_store :: store where
  "sentence_store =
     DataStore_init\<lparr>type_attributes := [''Sentence'' \<mapsto> [''speaker'', ''sentiment'']]\<rparr>"

text \<open>
  The same store holding one entry of that type with tid 1, as \<^verbatim>\<open>_new_entry\<close> lays
  it out, in \<^verbatim>\<open>elements\<close> and in \<^verbatim>\<open>entry_dict\<close>.
\<close>

definition sentence_1 :: entry where
  "sentence_1 = [PStr ''Sentence'', PInt 1, PInt 0, PInt 10, PNone, PNone]"

definition one_sentence_store :: store where
  "one_sentence_store =
     sentence_store\<lparr>elements := [[sentence_1]], entry_dict := [1 \<mapsto> sentence_1]\<rparr>"

section \<open>Auxiliary facts\<close>

lemma nth_via_drop: "n \<le> i \<Longrightarrow> i < length xs \<Longrightarrow> xs ! i = drop n xs ! (i - n)"
  by simp

lemma new_entry_registered:
  "type_attributes self ty = Some attrs \<Longrightarrow>
   new_entry self ty b e uuid =
     Inr ([PStr ty, PInt uuid, b, e] @ replicate (length attrs) PNone, self)"
  by (simp add: new_entry_def)

lemma new_entry_unregistered:
  "type_attributes self ty = None \<Longrightarrow> new_entry self ty b e uuid = Inl (KeyError ty)"
  by (simp add: new_entry_def)

lemma sentence_registered:
  "type_attributes sentence_store ''Sentence'' = Some [''speaker'', ''sentiment'']"
  by (simp add: sentence_store_def)

lemma sentence_registered_one:
  "type_attributes one_sentence_store ''Sentence'' = Some [''speaker'', ''sentiment'']"
  by (simp add: one_sentence_store_def sentence_store_def)

text \<open>No call changes the store: the factory returns it as it is, the rest raise.\<close>

lemma call_method_same_store: "call_method self c = self"
  by (cases c)
     (simp_all add: store_after_def new_entry_def generate_attr_index_def add_annotation_raw_def
        set_attr_def get_attr_def delete_entry_def get_entry_def get_def next_entry_def
        prev_entry_def split: option.split)

lemma calls_same_store: "foldl call_method self cs = self"
  by (induction cs) (simp_all add: call_method_same_store)

text \<open>
  The methods whose body is not written never return, and a store built by the
  constructor holds no entry after any sequence of calls: nothing fills
  \<^verbatim>\<open>elements\<close> or \<^verbatim>\<open>entry_dict\<close>.
\<close>

lemma add_annotation_raw_never_returns: "add_annotation_raw self type_id b e \<noteq> Inr r"
  by (simp add: add_annotation_raw_def)

lemma delete_entry_never_returns: "delete_entry self tid \<noteq> Inr r"
  by (simp add: delete_entry_def)

lemma set_attr_never_returns: "set_attr self tid attr_name v \<noteq> Inr r"
  by (simp add: set_attr_def)

lemma get_never_returns: "get self entry_type kwargs \<noteq> Inr r"
  by (simp add: get_def)

lemma constructed_store_holds_no_entry:
  "entry_dict (foldl call_method DataStore_init cs) tid = None
   \<and> elements (foldl call_method DataStore_init cs) = []"
  by (simp add: calls_same_store DataStore_init_def)


section \<open>Properties of the record factory\<close>

text \<open>
  C1. The claim puts begin, end, type and identity at the indices 0, 1, 2 and 3, as the
  documentation of the class does. The factory builds the list in another order: for the
  registered type \<open>''Sentence''\<close>, begin 0, end 10 and the drawn identity 42 the first
  four cells are the type, the identity, begin and end; the attribute slots follow.
\<close>

theorem new_entry_reserved_fields_order:
  "\<exists>entry self'. new_entry sentence_store ''Sentence'' (PInt 0) (PInt 10) 42 = Inr (entry, self')
     \<and> entry = [PStr ''Sentence'', PInt 42, PInt 0, PInt 10, PNone, PNone]
     \<and> take 4 entry \<noteq> [PInt 0, PInt 10, PStr ''Sentence'', PInt 42]"
  by (simp add: new_entry_def sentence_store_def)

text \<open>
  C2. For a type registered in the schema registry, \<^verbatim>\<open>_new_entry\<close> returns a list of
  length 4 plus the number of attributes of the type, and every cell from index 4 on
  (the attribute slots) holds \<^verbatim>\<open>None\<close>.
\<close>

theorem new_entry_length_and_unset_slots:
  assumes "type_attributes self ty = Some attrs"
  shows "\<exists>entry self'. new_entry self ty b e uuid = Inr (entry, self')
           \<and> length entry = 4 + length attrs
           \<and> drop 4 entry = replicate (length attrs) PNone
           \<and> (\<forall>i. 4 \<le> i \<and> i < length entry \<longrightarrow> entry ! i = PNone)"
proof -
  let ?entry = "[PStr ty, PInt uuid, b, e] @ replicate (length attrs) PNone"
  have ret: "new_entry self ty b e uuid = Inr (?entry, self)"
    using assms by (rule new_entry_registered)
  have len: "length ?entry = 4 + length attrs"
    by simp
  have slots: "drop 4 ?entry = replicate (length attrs) PNone"
    by simp
  have unset: "?entry ! i = PNone" if "4 \<le> i \<and> i < length ?entry" for i
  proof -
    from that have k: "i - 4 < length attrs" by auto
    from that have "?entry ! i = drop 4 ?entry ! (i - 4)"
      by (intro nth_via_drop) blast+
    also have "\<dots> = replicate (length attrs) PNone ! (i - 4)"
      by (simp only: slots)
    also from k have "\<dots> = PNone" by simp
    finally show ?thesis .
  qed
  from ret len slots unset show ?thesis by blast
qed

theorem new_entry_length_and_unset_slots_witness:
  "type_attributes sentence_store ''Sentence'' = Some [''speaker'', ''sentiment'']
   \<and> (\<exists>entry self'. new_entry sentence_store ''Sentence'' (PInt 0) (PInt 10) 42 = Inr (entry, self')
           \<and> length entry = 4 + length [''speaker'', ''sentiment'']
           \<and> drop 4 entry = replicate (length [''speaker'', ''sentiment'']) PNone
           \<and> (\<forall>i. 4 \<le> i \<and> i < length entry \<longrightarrow> entry ! i = PNone))"
  using new_entry_length_and_unset_slots [OF sentence_registered, of "PInt 0" "PInt 10" 42]
    sentence_registered
  by simp

text \<open>
  C3. For a registered type, \<^verbatim>\<open>_new_entry\<close> returns its list and leaves the store as
  it was: the per-type lists (\<^verbatim>\<open>elements\<close>), the identity directory
  (\<^verbatim>\<open>entry_dict\<close>) and the schema registry (\<^verbatim>\<open>_type_attributes\<close>) are the same
  after the call, and so is the whole store.
\<close>

theorem new_entry_leaves_store_unchanged:
  assumes "type_attributes self ty = Some attrs"
  shows "\<exists>entry self'. new_entry self ty b e uuid = Inr (entry, self')
           \<and> elements self' = elements self
           \<and> entry_dict self' = entry_dict self
           \<and> type_attributes self' = type_attributes self
           \<and> self' = self"
  using assms by (simp add: new_entry_def)

theorem new_entry_leaves_store_unchanged_witness:
  "type_attributes one_sentence_store ''Sentence'' = Some [''speaker'', ''sentiment'']
   \<and> (\<exists>entry self'. new_entry one_sentence_store ''Sentence'' (PInt 5) (PInt 15) 2 = Inr (entry, self')
           \<and> elements self' = [[sentence_1]]
           \<and> entry_dict self' 1 = Some sentence_1
           \<and> type_attributes self' = type_attributes one_sentence_store
           \<and> self' = one_sentence_store)"
proof -
  from new_entry_leaves_store_unchanged [OF sentence_registered_one, of "PInt 5" "PInt 15" 2]
  obtain entry self' where
    ret: "new_entry one_sentence_store ''Sentence'' (PInt 5) (PInt 15) 2 = Inr (entry, self')"
    and same: "self' = one_sentence_store"
    by blast
  have "elements one_sentence_store = [[sentence_1]]"
    and "entry_dict one_sentence_store 1 = Some sentence_1"
    by (simp_all add: one_sentence_store_def)
  with ret same sentence_registered_one show ?thesis by simp
qed

text \<open>
  C9. For a registered type and any two integers, \<^verbatim>\<open>_new_entry\<close> returns a list that
  holds begin and end as they were given (at the indices 2 and 3): nothing compares them
  with each other or with 0.
\<close>

theorem new_entry_keeps_any_begin_end:
  assumes "type_attributes self ty = Some attrs"
  shows "\<exists>entry self'. new_entry self ty (PInt b) (PInt e) uuid = Inr (entry, self')
           \<and> entry ! 2 = PInt b \<and> entry ! 3 = PInt e"
  using assms by (simp add: new_entry_def)

theorem new_entry_keeps_any_begin_end_witness:
  "type_attributes sentence_store ''Sentence'' = Some [''speaker'', ''sentiment'']
   \<and> (7::int) > - 3 \<and> (- 3::int) < 0
   \<and> (\<exists>entry self'. new_entry sentence_store ''Sentence'' (PInt 7) (PInt (- 3)) 42 = Inr (entry, self')
           \<and> entry ! 2 = PInt 7 \<and> entry ! 3 = PInt (- 3))"
  using new_entry_keeps_any_begin_end [OF sentence_registered, of 7 "- 3" 42]
    sentence_registered
  by simp

text \<open>
  C10. The constructor leaves the schema registry empty, and after any sequence of calls
  of the methods of the class on the new store it is still empty; on such a store
  \<^verbatim>\<open>_new_entry\<close> raises \<^verbatim>\<open>KeyError\<close> for every type string, whatever begin, end and
  the drawn identity are.
\<close>

theorem fresh_store_new_entry_KeyError:
  "type_attributes DataStore_init = Map.empty
   \<and> type_attributes (foldl call_method DataStore_init calls) = Map.empty
   \<and> new_entry DataStore_init ty b e uuid = Inl (KeyError ty)
   \<and> new_entry (foldl call_method DataStore_init calls) ty b e uuid = Inl (KeyError ty)"
proof -
  have empty: "type_attributes DataStore_init = Map.empty"
    by (simp add: DataStore_init_def)
  have same: "foldl call_method DataStore_init calls = DataStore_init"
    by (rule calls_same_store)
  from empty have "type_attributes DataStore_init ty = None"
    by simp
  then have "new_entry DataStore_init ty b e uuid = Inl (KeyError ty)"
    by (rule new_entry_unregistered)
  with empty same show ?thesis by simp
qed

section \<open>Creation and reading by type for a type that is not registered\<close>




end
